theory Spec2Isabelle
  imports Complex_Main "HOL-Library.Word"
begin

section \<open>Data model of the measurement decoder\<close>

text \<open>
  The Go package \<open>netatmo\<close> decodes the body of a \<open>getmeasure\<close> reply into a flat
  slice of \<open>Measure\<close> values. The types below follow the Go declarations.

  \<^item> \<open>int64\<close> and \<open>int\<close> are 64-bit two's complement words (\<open>int\<close> as on every
    64-bit Go platform); \<open>+\<close> and \<open>*\<close> wrap, \<open>sint\<close> reads the signed value.
  \<^item> A \<open>float64\<close> that \<open>encoding/json\<close> has decoded is finite (the decoder rejects
    numbers that overflow, and JSON has no NaN or infinity), so it is modelled by the real
    number it denotes. Both zeros denote \<open>0\<close>, which is how Go's \<open>==\<close> compares them.
  \<^item> A pointer that is only tested against \<open>nil\<close> and dereferenced is an \<open>option\<close>.
  \<^item> A Go slice is either \<open>nil\<close> or a (possibly empty) sequence; the decoder's callers
    test for \<open>nil\<close>, so the two are kept apart.
  \<^item> A run-time panic is the \<open>Inl\<close> side of a sum.
\<close>

type_synonym float64 = real
type_synonym int64 = "64 word"
type_synonym go_int = "64 word"
type_synonym error = string
type_synonym byte = "8 word"
type_synonym cell = "float64 option"

record Measure =
  DeviceID :: string
  ModuleID :: string
  Timestamp :: int64
  Temperature :: "float64 option"
  CO2 :: "go_int option"
  Humidity :: "go_int option"
  Pressure :: "float64 option"
  Noise :: "go_int option"
  WindStrength :: "go_int option"
  WindAngle :: "go_int option"
  GustStrength :: "go_int option"
  GustAngle :: "go_int option"

record measureBody =
  BeginTime :: int64
  StepTime :: int64
  Value :: "cell list list"

record getMeasureResponse =
  Body :: "measureBody list"
  Status :: string
  ExecTime :: float64
  ServerTime :: int64

datatype 'a slice = NilSlice | Slice "'a list"

datatype panic = IndexOutOfRange int nat

text \<open>\<open>TargetMeasurements\<close>: the metric names, in the column order of every row.\<close>

definition TargetMeasurements :: "string list" where
  "TargetMeasurements =
     [''Temperature'', ''CO2'', ''Humidity'', ''Pressure'', ''Noise'', ''WindStrength'',
      ''WindAngle'', ''GustStrength'', ''GustAngle'']"

subsection \<open>Slices\<close>

fun elems :: "'a slice \<Rightarrow> 'a list" where
  "elems NilSlice = []"
| "elems (Slice xs) = xs"

definition len :: "'a slice \<Rightarrow> nat" where
  "len s = length (elems s)"

text \<open>\<open>append(s, x)\<close>: the result is never \<open>nil\<close>.\<close>

definition append_slice :: "'a slice \<Rightarrow> 'a \<Rightarrow> 'a slice" where
  "append_slice s x = Slice (elems s @ [x])"

text \<open>\<open>s[i]\<close> with a signed index: out of range is a run-time panic.\<close>

definition index_slice :: "'a slice \<Rightarrow> int \<Rightarrow> panic + 'a" where
  "index_slice s i =
     (if 0 \<le> i \<and> i < int (len s) then Inr (elems s ! nat i)
      else Inl (IndexOutOfRange i (len s)))"

text \<open>\<open>m[k]\<close> on a row, with a constant index \<open>k\<close>.\<close>

definition index_cell :: "cell list \<Rightarrow> nat \<Rightarrow> panic + cell" where
  "index_cell m k =
     (if k < length m then Inr (m ! k) else Inl (IndexOutOfRange (int k) (length m)))"

definition bind_panic :: "panic + 'a \<Rightarrow> ('a \<Rightarrow> panic + 'b) \<Rightarrow> panic + 'b" where
  "bind_panic x f = (case x of Inl p \<Rightarrow> Inl p | Inr v \<Rightarrow> f v)"

section \<open>Sentinel resolution: \<open>handleFloat\<close> and \<open>handleInt\<close>\<close>

text \<open>Discarding the fraction of a real number (rounding toward zero).\<close>

definition truncate_toward_zero :: "real \<Rightarrow> int" where
  "truncate_toward_zero v = (if 0 \<le> v then \<lfloor>v\<rfloor> else \<lceil>v\<rceil>)"

text \<open>
  The conversion \<open>int(f)\<close> of a \<open>float64\<close>. Go discards the fraction; when the result does
  not fit the integer type the conversion still succeeds and the value depends on the
  implementation. That value is the parameter \<open>oor\<close>.
\<close>

definition float64_to_int :: "(float64 \<Rightarrow> go_int) \<Rightarrow> float64 \<Rightarrow> go_int" where
  "float64_to_int oor v =
     (let t = truncate_toward_zero v
      in if - (2 ^ 63) \<le> t \<and> t < 2 ^ 63 then word_of_int t else oor v)"

text \<open>On amd64 the conversion instruction yields the smallest \<open>int64\<close> when out of range.\<close>

definition amd64_out_of_range :: "float64 \<Rightarrow> go_int" where
  "amd64_out_of_range v = - (2 ^ 63)"

definition handleFloat :: "cell \<Rightarrow> float64 option" where
  "handleFloat v =
     (case v of
        None \<Rightarrow> None
      | Some x \<Rightarrow> if x = 0 then None else Some x)"

definition handleInt :: "(float64 \<Rightarrow> go_int) \<Rightarrow> cell \<Rightarrow> go_int option" where
  "handleInt oor v =
     (case v of
        None \<Rightarrow> None
      | Some x \<Rightarrow> if x = 0 then None else Some (float64_to_int oor x))"

section \<open>Series expansion: \<open>buildGetMeasureResponse\<close>\<close>

text \<open>
  The struct literal in the loop body. Its field values are evaluated in the order they are
  written, so the first index that is out of range is the one that panics.
\<close>

definition measure_of_row ::
  "(float64 \<Rightarrow> go_int) \<Rightarrow> string \<Rightarrow> string \<Rightarrow> measureBody \<Rightarrow> nat \<Rightarrow> cell list
     \<Rightarrow> panic + Measure" where
  "measure_of_row oor deviceID moduleID v i m =
     bind_panic (index_cell m 0) (\<lambda>m0.
     bind_panic (index_cell m 1) (\<lambda>m1.
     bind_panic (index_cell m 2) (\<lambda>m2.
     bind_panic (index_cell m 3) (\<lambda>m3.
     bind_panic (index_cell m 4) (\<lambda>m4.
     bind_panic (index_cell m 5) (\<lambda>m5.
     bind_panic (index_cell m 6) (\<lambda>m6.
     bind_panic (index_cell m 7) (\<lambda>m7.
     bind_panic (index_cell m 8) (\<lambda>m8.
       Inr \<lparr>DeviceID = deviceID,
            ModuleID = moduleID,
            Timestamp = BeginTime v + (StepTime v * of_nat i),
            Temperature = handleFloat m0,
            CO2 = handleInt oor m1,
            Humidity = handleInt oor m2,
            Pressure = handleFloat m3,
            Noise = handleInt oor m4,
            WindStrength = handleInt oor m5,
            WindAngle = handleInt oor m6,
            GustStrength = handleInt oor m7,
            GustAngle = handleInt oor m8\<rparr>)))))))))"

text \<open>
  The inner loop \<open>for i, m := range v.Value\<close>: \<open>i\<close> is the index of the next row,
  \<open>acc\<close> the slice \<open>measures\<close> built so far.
\<close>

fun rows_loop ::
  "(float64 \<Rightarrow> go_int) \<Rightarrow> string \<Rightarrow> string \<Rightarrow> measureBody \<Rightarrow> nat \<Rightarrow> cell list list
     \<Rightarrow> Measure slice \<Rightarrow> panic + Measure slice" where
  "rows_loop oor deviceID moduleID v i [] acc = Inr acc"
| "rows_loop oor deviceID moduleID v i (m # rest) acc =
     (case measure_of_row oor deviceID moduleID v i m of
        Inl p \<Rightarrow> Inl p
      | Inr rcd \<Rightarrow>
          rows_loop oor deviceID moduleID v (Suc i) rest (append_slice acc rcd))"

text \<open>The outer loop \<open>for _, v := range response.Body\<close>.\<close>

fun blocks_loop ::
  "(float64 \<Rightarrow> go_int) \<Rightarrow> string \<Rightarrow> string \<Rightarrow> measureBody list \<Rightarrow> Measure slice
     \<Rightarrow> panic + Measure slice" where
  "blocks_loop oor deviceID moduleID [] acc = Inr acc"
| "blocks_loop oor deviceID moduleID (v # rest) acc =
     (case rows_loop oor deviceID moduleID v 0 (Value v) acc of
        Inl p \<Rightarrow> Inl p
      | Inr acc' \<Rightarrow> blocks_loop oor deviceID moduleID rest acc')"

text \<open>
  \<open>buildGetMeasureResponse\<close>. \<open>json.Unmarshal\<close> belongs to the standard library and is the
  parameter \<open>unmarshal\<close>: it either fails with an error or yields the decoded response.
  The result is the pair the Go function returns, or a panic.
\<close>

definition buildGetMeasureResponse ::
  "(float64 \<Rightarrow> go_int) \<Rightarrow> (byte list \<Rightarrow> error + getMeasureResponse) \<Rightarrow> string \<Rightarrow> string
     \<Rightarrow> byte list \<Rightarrow> panic + (Measure slice \<times> error option)" where
  "buildGetMeasureResponse oor unmarshal deviceID moduleID data =
     (case unmarshal data of
        Inl err \<Rightarrow> Inr (NilSlice, Some err)
      | Inr response \<Rightarrow>
          (case blocks_loop oor deviceID moduleID (Body response) NilSlice of
             Inl p \<Rightarrow> Inl p
           | Inr acc \<Rightarrow>
               if len acc = 0 then Inr (NilSlice, None) else Inr (acc, None)))"

section \<open>Newest read: \<open>GetMeasureByNewest\<close>\<close>

text \<open>\<open>strings.Join\<close>.\<close>

fun join :: "string list \<Rightarrow> string \<Rightarrow> string" where
  "join [] sep = []"
| "join [x] sep = x"
| "join (x # y # rest) sep = x @ sep @ join (y # rest) sep"

definition newest_url :: "string \<Rightarrow> string \<Rightarrow> string" where
  "newest_url deviceID moduleID =
     ''https://api.netatmo.com/api/getmeasure'' @
     ''?device_id='' @ deviceID @
     ''&module_id='' @ moduleID @
     ''&scale=max'' @
     ''&type='' @ join TargetMeasurements '','' @
     ''&date_end=last''"

text \<open>
  \<open>GetMeasureByNewest\<close>. The HTTP client's \<open>Get\<close> and \<open>ioutil.ReadAll\<close> are the
  parameters \<open>http_get\<close> and \<open>read_all\<close>. The result is the pair of the record pointer
  and the error, or a panic.
\<close>

definition GetMeasureByNewest ::
  "(float64 \<Rightarrow> go_int) \<Rightarrow> (byte list \<Rightarrow> error + getMeasureResponse)
     \<Rightarrow> (string \<Rightarrow> error + 'r) \<Rightarrow> ('r \<Rightarrow> error + byte list) \<Rightarrow> string \<Rightarrow> string
     \<Rightarrow> panic + (Measure option \<times> error option)" where
  "GetMeasureByNewest oor unmarshal http_get read_all deviceID moduleID =
     (case http_get (newest_url deviceID moduleID) of
        Inl err \<Rightarrow> Inr (None, Some err)
      | Inr resp \<Rightarrow>
          (case read_all resp of
             Inl err \<Rightarrow> Inr (None, Some err)
           | Inr data \<Rightarrow>
               (case buildGetMeasureResponse oor unmarshal deviceID moduleID data of
                  Inl p \<Rightarrow> Inl p
                | Inr (acc, Some err) \<Rightarrow> Inr (None, Some err)
                | Inr (acc, None) \<Rightarrow>
                    if acc = NilSlice then Inr (None, None)
                    else (case index_slice acc (int (len acc) - 1) of
                            Inl p \<Rightarrow> Inl p
                          | Inr rcd \<Rightarrow> Inr (Some rcd, None)))))"

section \<open>The expansion as the specification words it\<close>

text \<open>
  One record per row: the row's cells resolved column by column, the timestamp computed
  from the block and the row's position. Only meaningful for rows of at least nine cells.
\<close>

definition record_of_row ::
  "(float64 \<Rightarrow> go_int) \<Rightarrow> string \<Rightarrow> string \<Rightarrow> measureBody \<Rightarrow> nat \<Rightarrow> cell list \<Rightarrow> Measure" where
  "record_of_row oor deviceID moduleID v i m =
     \<lparr>DeviceID = deviceID,
      ModuleID = moduleID,
      Timestamp = BeginTime v + StepTime v * of_nat i,
      Temperature = handleFloat (m ! 0),
      CO2 = handleInt oor (m ! 1),
      Humidity = handleInt oor (m ! 2),
      Pressure = handleFloat (m ! 3),
      Noise = handleInt oor (m ! 4),
      WindStrength = handleInt oor (m ! 5),
      WindAngle = handleInt oor (m ! 6),
      GustStrength = handleInt oor (m ! 7),
      GustAngle = handleInt oor (m ! 8)\<rparr>"

text \<open>The records of one block, in row order, and of a response, block after block.\<close>

definition block_records ::
  "(float64 \<Rightarrow> go_int) \<Rightarrow> string \<Rightarrow> string \<Rightarrow> measureBody \<Rightarrow> Measure list" where
  "block_records oor deviceID moduleID v =
     map (\<lambda>(i, m). record_of_row oor deviceID moduleID v i m) (enumerate 0 (Value v))"

definition expansion_spec ::
  "(float64 \<Rightarrow> go_int) \<Rightarrow> string \<Rightarrow> string \<Rightarrow> measureBody list \<Rightarrow> Measure list" where
  "expansion_spec oor deviceID moduleID blocks =
     concat (map (block_records oor deviceID moduleID) blocks)"

text \<open>A response is well formed when every row has a cell for each of the nine metrics.\<close>

definition well_formed :: "getMeasureResponse \<Rightarrow> bool" where
  "well_formed response =
     (\<forall>v \<in> set (Body response). \<forall>m \<in> set (Value v). length TargetMeasurements \<le> length m)"

text \<open>A response with every row cut to its first nine cells.\<close>

definition cut_rows :: "getMeasureResponse \<Rightarrow> getMeasureResponse" where
  "cut_rows response =
     response\<lparr>Body := map (\<lambda>v. v\<lparr>Value := map (take 9) (Value v)\<rparr>) (Body response)\<rparr>"

section \<open>Example inputs\<close>

text \<open>
  A stand-in for \<open>json.Unmarshal\<close> on concrete inputs: empty input is the decoder's
  "unexpected end of JSON input", anything else decodes to the given response.
\<close>

definition stub_unmarshal :: "getMeasureResponse \<Rightarrow> byte list \<Rightarrow> error + getMeasureResponse" where
  "stub_unmarshal response data =
     (if data = [] then Inl ''unexpected end of JSON input'' else Inr response)"

definition example_block :: measureBody where
  "example_block =
     \<lparr>BeginTime = 1000, StepTime = 60,
      Value = [[Some 21.5, None, Some 55, Some 1013.0, None, None, None, None, None],
               [Some 0.0, Some 400, Some 0, Some 1012.5, Some 30, None, None, None, None]]\<rparr>"

definition example_response :: getMeasureResponse where
  "example_response = \<lparr>Body = [example_block], Status = ''ok'', ExecTime = 0.25, ServerTime = 2000\<rparr>"

definition zero_row :: "cell list" where
  "zero_row = [Some 0.0, Some 400, Some 0, Some 1012.5, Some 30, None, None, None, None]"

definition wide_row :: "cell list" where
  "wide_row = [Some 21.5, Some 400, Some 55, Some 1013.0, Some 30, Some 5, Some 90, Some 9,
               Some 95, Some 7]"

definition wide_response :: getMeasureResponse where
  "wide_response =
     \<lparr>Body = [\<lparr>BeginTime = 1000, StepTime = 60, Value = [wide_row]\<rparr>],
      Status = ''ok'', ExecTime = 0.25, ServerTime = 2000\<rparr>"

definition narrow_response :: getMeasureResponse where
  "narrow_response =
     \<lparr>Body = [\<lparr>BeginTime = 1000, StepTime = 60, Value = [take 7 wide_row]\<rparr>],
      Status = ''ok'', ExecTime = 0.25, ServerTime = 2000\<rparr>"

definition no_rows_response :: getMeasureResponse where
  "no_rows_response =
     \<lparr>Body = [\<lparr>BeginTime = 1000, StepTime = 60, Value = []\<rparr>],
      Status = ''ok'', ExecTime = 0.25, ServerTime = 2000\<rparr>"

text \<open>Two blocks whose begin times are not in chronological order.\<close>

definition out_of_order_response :: getMeasureResponse where
  "out_of_order_response =
     \<lparr>Body = [\<lparr>BeginTime = 2000, StepTime = 60, Value = [wide_row, zero_row]\<rparr>,
              \<lparr>BeginTime = 1000, StepTime = 60, Value = [zero_row]\<rparr>],
      Status = ''ok'', ExecTime = 0.25, ServerTime = 3000\<rparr>"

text \<open>Stand-ins for the HTTP client: the request succeeds and the body is read in full.\<close>

definition stub_http_get :: "string \<Rightarrow> error + byte list" where
  "stub_http_get url = Inr [0]"

definition stub_read_all :: "byte list \<Rightarrow> error + byte list" where
  "stub_read_all resp = Inr resp"

section \<open>Basic facts\<close>

lemma length_TargetMeasurements: "length TargetMeasurements = 9"
  by (simp add: TargetMeasurements_def)

lemma len_NilSlice [simp]: "len NilSlice = 0"
  by (simp add: len_def)

lemma len_Slice [simp]: "len (Slice xs) = length xs"
  by (simp add: len_def)

lemma elems_append_slice [simp]: "elems (append_slice s x) = elems s @ [x]"
  by (simp add: append_slice_def)

lemma len_append_slice [simp]: "len (append_slice s x) = Suc (len s)"
  by (simp add: len_def)

lemma index_last_slice:
  assumes "elems ms \<noteq> []"
  shows "index_slice ms (int (len ms) - 1) = Inr (last (elems ms))"
proof -
  from assms have "0 < len ms"
    by (simp add: len_def)
  then have "nat (int (len ms) - 1) = len ms - 1"
    by simp
  with \<open>0 < len ms\<close> show ?thesis
    using assms by (simp add: index_slice_def last_conv_nth len_def)
qed

text \<open>
  Reading a 64-bit word as a signed number: a value in range is kept, and the timestamp
  expression is the integer it denotes as long as that integer fits \<open>int64\<close>.
\<close>

lemma sint_word_of_int_in_range:
  assumes "- (2 ^ 63) \<le> t" and "t < 2 ^ 63"
  shows "sint (word_of_int t :: 64 word) = t"
  using assms by (simp add: sint_sbintrunc' signed_take_bit_int_eq_self)

lemma timestamp_without_overflow:
  fixes b s :: int64
  assumes "- (2 ^ 63) \<le> sint b + sint s * int i" and "sint b + sint s * int i < 2 ^ 63"
  shows "sint (b + s * of_nat i) = sint b + sint s * int i"
proof -
  have "b + s * of_nat i = word_of_int (sint b + sint s * int i)"
    by simp
  then show ?thesis
    using sint_word_of_int_in_range [OF assms] by simp
qed

section \<open>One row\<close>

text \<open>
  A row of at least nine cells yields the record of its first nine cells; a shorter row
  panics at the first index past its end.
\<close>

lemma measure_of_row_wide:
  assumes "9 \<le> length m"
  shows "measure_of_row oor deviceID moduleID v i m =
           Inr (record_of_row oor deviceID moduleID v i m)"
proof -
  from assms have "\<And>k. k < 9 \<Longrightarrow> index_cell m k = Inr (m ! k)"
    by (simp add: index_cell_def)
  then show ?thesis
    by (simp add: measure_of_row_def record_of_row_def bind_panic_def)
qed

lemma measure_of_row_narrow:
  assumes "length m < 9"
  shows "measure_of_row oor deviceID moduleID v i m =
           Inl (IndexOutOfRange (int (length m)) (length m))"
proof -
  from assms have "length m = 0 \<or> length m = 1 \<or> length m = 2 \<or> length m = 3 \<or> length m = 4
      \<or> length m = 5 \<or> length m = 6 \<or> length m = 7 \<or> length m = 8"
    by arith
  then show ?thesis
    by (elim disjE) (simp_all add: measure_of_row_def index_cell_def bind_panic_def)
qed

lemma record_of_row_take:
  assumes "9 \<le> length m"
  shows "record_of_row oor deviceID moduleID v i (take 9 m) =
           record_of_row oor deviceID moduleID v i m"
  by (simp add: record_of_row_def)

lemma record_of_row_block:
  "record_of_row oor deviceID moduleID (v\<lparr>Value := rows\<rparr>) i m =
     record_of_row oor deviceID moduleID v i m"
  by (simp add: record_of_row_def)

section \<open>The loops\<close>

text \<open>
  With rows of at least nine cells the inner loop appends one record per row, numbered
  from \<open>i\<close>; a shorter row anywhere stops it with a panic. The outer loop does the
  same block after block.
\<close>

lemma rows_loop_wide:
  assumes "\<forall>m \<in> set rows. 9 \<le> length m"
  shows "rows_loop oor deviceID moduleID v i rows acc =
           Inr (if rows = [] then acc
                else Slice (elems acc @
                       map (\<lambda>(j, m). record_of_row oor deviceID moduleID v j m)
                         (enumerate i rows)))"
  using assms
proof (induction rows arbitrary: i acc)
  case Nil
  show ?case by simp
next
  case (Cons m rest)
  from Cons.prems have wide: "9 \<le> length m" and rest: "\<forall>m \<in> set rest. 9 \<le> length m"
    by simp_all
  show ?case
    by (simp add: measure_of_row_wide [OF wide] Cons.IH [OF rest] append_slice_def)
qed

lemma rows_loop_narrow:
  assumes "\<exists>m \<in> set rows. length m < 9"
  shows "\<exists>n < 9. rows_loop oor deviceID moduleID v i rows acc = Inl (IndexOutOfRange (int n) n)"
  using assms
proof (induction rows arbitrary: i acc)
  case Nil
  then show ?case by simp
next
  case (Cons m rest)
  show ?case
  proof (cases "length m < 9")
    case True
    then show ?thesis
      using measure_of_row_narrow [of m] by auto
  next
    case False
    then have wide: "9 \<le> length m" by simp
    with Cons.prems have "\<exists>m \<in> set rest. length m < 9" by auto
    from Cons.IH [OF this] show ?thesis
      by (simp add: measure_of_row_wide [OF wide])
  qed
qed

lemma block_records_Nil_iff:
  "block_records oor deviceID moduleID v = [] \<longleftrightarrow> Value v = []"
  by (cases "Value v") (simp_all add: block_records_def)

lemma length_block_records:
  "length (block_records oor deviceID moduleID v) = length (Value v)"
  by (simp add: block_records_def)

lemma blocks_loop_wide:
  assumes "\<forall>v \<in> set blocks. \<forall>m \<in> set (Value v). 9 \<le> length m"
  shows "blocks_loop oor deviceID moduleID blocks acc =
           Inr (if expansion_spec oor deviceID moduleID blocks = [] then acc
                else Slice (elems acc @ expansion_spec oor deviceID moduleID blocks))"
  using assms
proof (induction blocks arbitrary: acc)
  case Nil
  show ?case by (simp add: expansion_spec_def)
next
  case (Cons v rest)
  from Cons.prems have head: "\<forall>m \<in> set (Value v). 9 \<le> length m"
    and rest: "\<forall>v \<in> set rest. \<forall>m \<in> set (Value v). 9 \<le> length m"
    by simp_all
  show ?case
    by (simp add: rows_loop_wide [OF head] Cons.IH [OF rest] expansion_spec_def
        block_records_Nil_iff) (simp add: block_records_def)
qed

lemma blocks_loop_narrow:
  assumes "\<exists>v \<in> set blocks. \<exists>m \<in> set (Value v). length m < 9"
  shows "\<exists>n < 9. blocks_loop oor deviceID moduleID blocks acc = Inl (IndexOutOfRange (int n) n)"
  using assms
proof (induction blocks arbitrary: acc)
  case Nil
  then show ?case by simp
next
  case (Cons v rest)
  show ?case
  proof (cases "\<exists>m \<in> set (Value v). length m < 9")
    case True
    from rows_loop_narrow [OF this, of oor deviceID moduleID v 0 acc]
    obtain n where "n < 9"
      and "rows_loop oor deviceID moduleID v 0 (Value v) acc = Inl (IndexOutOfRange (int n) n)"
      by blast
    then show ?thesis
      by auto
  next
    case False
    then have head: "\<forall>m \<in> set (Value v). 9 \<le> length m" by auto
    from False Cons.prems have "\<exists>v \<in> set rest. \<exists>m \<in> set (Value v). length m < 9" by auto
    from Cons.IH [OF this] show ?thesis
      by (simp add: rows_loop_wide [OF head])
  qed
qed

lemma expansion_spec_ids:
  assumes "x \<in> set (expansion_spec oor deviceID moduleID blocks)"
  shows "DeviceID x = deviceID \<and> ModuleID x = moduleID"
  using assms
  by (auto simp add: expansion_spec_def block_records_def record_of_row_def)

lemma length_expansion_spec:
  "length (expansion_spec oor deviceID moduleID blocks) =
     sum_list (map (\<lambda>v. length (Value v)) blocks)"
  by (simp add: expansion_spec_def length_concat comp_def length_block_records)

lemma rows_records_take:
  assumes "\<forall>m \<in> set rows. 9 \<le> length m"
  shows "map (\<lambda>(j, m). record_of_row oor deviceID moduleID v j m)
           (enumerate i (map (take 9) rows)) =
         map (\<lambda>(j, m). record_of_row oor deviceID moduleID v j m) (enumerate i rows)"
  using assms
  by (induction rows arbitrary: i) (simp_all add: record_of_row_take)

lemma block_records_cut:
  assumes "\<forall>m \<in> set (Value v). 9 \<le> length m"
  shows "block_records oor deviceID moduleID (v\<lparr>Value := map (take 9) (Value v)\<rparr>) =
           block_records oor deviceID moduleID v"
  using rows_records_take [OF assms]
  by (simp add: block_records_def record_of_row_block)

lemma expansion_spec_cut_rows:
  assumes "well_formed response"
  shows "expansion_spec oor deviceID moduleID (Body (cut_rows response)) =
           expansion_spec oor deviceID moduleID (Body response)"
proof -
  from assms have "\<forall>v \<in> set (Body response). \<forall>m \<in> set (Value v). 9 \<le> length m"
    by (simp add: well_formed_def length_TargetMeasurements)
  then have eq: "map (\<lambda>v. block_records oor deviceID moduleID (v\<lparr>Value := map (take 9) (Value v)\<rparr>))
               (Body response) =
             map (block_records oor deviceID moduleID) (Body response)"
    by (intro map_cong [OF refl]) (simp add: block_records_cut)
  show ?thesis
    by (simp add: expansion_spec_def cut_rows_def comp_def eq)
qed

lemma well_formed_cut_rows:
  assumes "well_formed response"
  shows "well_formed (cut_rows response)"
  using assms
  by (auto simp add: well_formed_def cut_rows_def length_TargetMeasurements)

section \<open>The decoder as a whole\<close>

text \<open>
  The three outcomes of \<open>buildGetMeasureResponse\<close>: the JSON decoder's error with a
  nil slice, the expansion of a well-formed response (nil when it is empty), and a panic
  on a response with a short row.
\<close>

lemma build_failed_parse:
  assumes "unmarshal data = Inl err"
  shows "buildGetMeasureResponse oor unmarshal deviceID moduleID data = Inr (NilSlice, Some err)"
  using assms by (simp add: buildGetMeasureResponse_def)

lemma build_wide:
  assumes "unmarshal data = Inr response" and "well_formed response"
  shows "buildGetMeasureResponse oor unmarshal deviceID moduleID data =
           Inr (if expansion_spec oor deviceID moduleID (Body response) = [] then NilSlice
                else Slice (expansion_spec oor deviceID moduleID (Body response)), None)"
proof -
  from assms(2) have "\<forall>v \<in> set (Body response). \<forall>m \<in> set (Value v). 9 \<le> length m"
    by (simp add: well_formed_def length_TargetMeasurements)
  from blocks_loop_wide [OF this] show ?thesis
    using assms(1) by (simp add: buildGetMeasureResponse_def)
qed

lemma build_narrow:
  assumes "unmarshal data = Inr response" and "\<not> well_formed response"
  shows "\<exists>n < 9. buildGetMeasureResponse oor unmarshal deviceID moduleID data =
           Inl (IndexOutOfRange (int n) n)"
proof -
  from assms(2) have "\<exists>v \<in> set (Body response). \<exists>m \<in> set (Value v). length m < 9"
    by (auto simp add: well_formed_def length_TargetMeasurements not_le)
  from blocks_loop_narrow [OF this, of oor deviceID moduleID NilSlice]
  obtain n where "n < 9"
    and "blocks_loop oor deviceID moduleID (Body response) NilSlice = Inl (IndexOutOfRange (int n) n)"
    by blast
  then show ?thesis
    using assms(1) by (auto simp add: buildGetMeasureResponse_def)
qed

lemma build_result_shape:
  assumes "buildGetMeasureResponse oor unmarshal deviceID moduleID data = Inr (ms, err)"
  shows "ms = NilSlice \<or> elems ms \<noteq> []"
  using assms
  by (auto simp add: buildGetMeasureResponse_def len_def split: sum.splits if_splits)

lemma build_error_no_records:
  assumes "buildGetMeasureResponse oor unmarshal deviceID moduleID data = Inr (ms, Some err)"
  shows "ms = NilSlice"
  using assms
  by (auto simp add: buildGetMeasureResponse_def split: sum.splits if_splits)

text \<open>
  \<open>GetMeasureByNewest\<close> panics only where the decoder does: its own index expression
  is never the cause.
\<close>

lemma newest_panics_only_in_decoder:
  assumes "GetMeasureByNewest oor unmarshal http_get read_all deviceID moduleID = Inl p"
  shows "\<exists>resp data. http_get (newest_url deviceID moduleID) = Inr resp
           \<and> read_all resp = Inr data
           \<and> buildGetMeasureResponse oor unmarshal deviceID moduleID data = Inl p"
proof -
  from assms obtain resp where g: "http_get (newest_url deviceID moduleID) = Inr resp"
    by (cases "http_get (newest_url deviceID moduleID)") (simp_all add: GetMeasureByNewest_def)
  from assms g obtain data where a: "read_all resp = Inr data"
    by (cases "read_all resp") (simp_all add: GetMeasureByNewest_def)
  show ?thesis
  proof (cases "buildGetMeasureResponse oor unmarshal deviceID moduleID data")
    case (Inl q)
    with assms g a have "q = p"
      by (simp add: GetMeasureByNewest_def)
    with Inl g a show ?thesis
      by blast
  next
    case (Inr res)
    obtain ms err where res: "res = (ms, err)"
      by (cases res)
    show ?thesis
    proof (cases err)
      case None
      from build_result_shape [OF Inr [unfolded res]]
      consider "ms = NilSlice" | "ms \<noteq> NilSlice" and "elems ms \<noteq> []"
        by blast
      then show ?thesis
      proof cases
        case 1
        with assms g a Inr res None show ?thesis
          by (simp add: GetMeasureByNewest_def)
      next
        case 2
        with assms g a Inr res None show ?thesis
          by (simp add: GetMeasureByNewest_def index_last_slice)
      qed
    next
      case (Some e)
      with assms g a Inr res show ?thesis
        by (simp add: GetMeasureByNewest_def)
    qed
  qed
qed

section \<open>The example inputs\<close>

lemma example_response_well_formed: "well_formed example_response"
  by (simp add: well_formed_def example_response_def example_block_def length_TargetMeasurements)

lemma out_of_order_build:
  "buildGetMeasureResponse amd64_out_of_range (stub_unmarshal out_of_order_response)
     ''70:ee:50:00:00:01'' ''02:00:00:00:00:01'' [0] =
   Inr (Slice (expansion_spec amd64_out_of_range ''70:ee:50:00:00:01'' ''02:00:00:00:00:01''
                 (Body out_of_order_response)), None)"
proof -
  have p: "stub_unmarshal out_of_order_response [0] = Inr out_of_order_response"
    by (simp add: stub_unmarshal_def)
  have wf: "well_formed out_of_order_response"
    by (simp add: well_formed_def out_of_order_response_def wide_row_def zero_row_def
        length_TargetMeasurements)
  have "expansion_spec amd64_out_of_range ''70:ee:50:00:00:01'' ''02:00:00:00:00:01''
          (Body out_of_order_response) \<noteq> []"
    by (simp add: expansion_spec_def block_records_def out_of_order_response_def)
  with build_wide [where unmarshal = "stub_unmarshal out_of_order_response" and data = "[0]",
      OF p wf] show ?thesis
    by simp
qed

lemma out_of_order_timestamps:
  "map Timestamp (expansion_spec amd64_out_of_range ''70:ee:50:00:00:01'' ''02:00:00:00:00:01''
                 (Body out_of_order_response)) = [2000, 2060, 1000]"
  by (simp add: expansion_spec_def block_records_def out_of_order_response_def record_of_row_def)

section \<open>The claims\<close>

subsection \<open>C1: one record per row, with the timestamp of its position\<close>

text \<open>
  C1. For a well-formed response with a single block of \<open>N\<close> rows the decoder returns
  exactly \<open>N\<close> records without error, and record \<open>i\<close> carries the timestamp
  \<open>BeginTime + StepTime * i\<close>. The sum is computed in \<open>int64\<close> as the code does;
  whenever the integer \<open>BeginTime + StepTime * i\<close> fits \<open>int64\<close>, the timestamp
  is that integer.
\<close>

theorem C1_single_block_timestamps:
  assumes "unmarshal data = Inr response" and "well_formed response" and "Body response = [v]"
  shows "\<exists>ms. buildGetMeasureResponse oor unmarshal deviceID moduleID data = Inr (ms, None)
           \<and> len ms = length (Value v)
           \<and> (\<forall>i < length (Value v).
                 Timestamp (elems ms ! i) = BeginTime v + StepTime v * of_nat i
                 \<and> (- (2 ^ 63) \<le> sint (BeginTime v) + sint (StepTime v) * int i
                      \<and> sint (BeginTime v) + sint (StepTime v) * int i < 2 ^ 63 \<longrightarrow>
                    sint (Timestamp (elems ms ! i)) =
                      sint (BeginTime v) + sint (StepTime v) * int i))"
proof -
  let ?recs = "block_records oor deviceID moduleID v"
  have spec: "expansion_spec oor deviceID moduleID (Body response) = ?recs"
    by (simp add: expansion_spec_def assms(3))
  have n: "length ?recs = length (Value v)"
    by (rule length_block_records)
  have ts: "Timestamp (?recs ! i) = BeginTime v + StepTime v * of_nat i"
    if "i < length (Value v)" for i
    using that by (simp add: block_records_def nth_enumerate_eq record_of_row_def)
  have exact: "sint (Timestamp (?recs ! i)) = sint (BeginTime v) + sint (StepTime v) * int i"
    if "i < length (Value v)"
      and "- (2 ^ 63) \<le> sint (BeginTime v) + sint (StepTime v) * int i"
      and "sint (BeginTime v) + sint (StepTime v) * int i < 2 ^ 63" for i
    unfolding ts [OF that(1)] by (rule timestamp_without_overflow [OF that(2,3)])
  let ?ms = "if ?recs = [] then NilSlice else Slice ?recs"
  have "buildGetMeasureResponse oor unmarshal deviceID moduleID data = Inr (?ms, None)"
    using build_wide [where unmarshal = unmarshal and data = data, OF assms(1,2)]
    by (simp add: spec)
  moreover have "elems ?ms = ?recs"
    by simp
  moreover from this have "len ?ms = length (Value v)"
    unfolding len_def using n by simp
  ultimately show ?thesis
    using ts exact by (intro exI [of _ ?ms]) simp
qed

theorem C1_single_block_timestamps_witness:
  "stub_unmarshal example_response [0] = Inr example_response
   \<and> well_formed example_response
   \<and> Body example_response = [example_block]
   \<and> (\<exists>ms. buildGetMeasureResponse amd64_out_of_range (stub_unmarshal example_response)
               ''70:ee:50:00:00:01'' ''02:00:00:00:00:01'' [0] = Inr (ms, None)
          \<and> len ms = 2
          \<and> Timestamp (elems ms ! 0) = 1000
          \<and> Timestamp (elems ms ! 1) = 1060
          \<and> sint (Timestamp (elems ms ! 1)) = 1060)"
proof -
  have p: "stub_unmarshal example_response [0] = Inr example_response"
    by (simp add: stub_unmarshal_def)
  have b: "Body example_response = [example_block]"
    by (simp add: example_response_def)
  have v: "length (Value example_block) = 2" "BeginTime example_block = 1000"
    "StepTime example_block = 60"
    by (simp_all add: example_block_def)
  from C1_single_block_timestamps [where unmarshal = "stub_unmarshal example_response"
      and data = "[0]" and oor = amd64_out_of_range and deviceID = "''70:ee:50:00:00:01''"
      and moduleID = "''02:00:00:00:00:01''", OF p example_response_well_formed b]
  obtain ms where r: "buildGetMeasureResponse amd64_out_of_range (stub_unmarshal example_response)
               ''70:ee:50:00:00:01'' ''02:00:00:00:00:01'' [0] = Inr (ms, None)"
    and l: "len ms = 2"
    and t: "\<forall>i < 2. Timestamp (elems ms ! i) = 1000 + 60 * of_nat i"
    unfolding v by blast
  from t have "Timestamp (elems ms ! 0) = 1000" and t1: "Timestamp (elems ms ! 1) = 1060"
    by simp_all
  moreover from t1 have "sint (Timestamp (elems ms ! 1)) = 1060"
    by simp
  ultimately show ?thesis
    using p b r l example_response_well_formed by blast
qed

subsection \<open>C2: null and zero cells\<close>

text \<open>
  C2. A cell that is null, or present and equal to zero, resolves to absent, for the float
  metrics (\<open>handleFloat\<close>) and the integer metrics (\<open>handleInt\<close>) alike; so in the
  record built from a row, the field of every column holding such a cell is nil.
\<close>

theorem C2_null_and_zero_resolve_to_absent:
  assumes "9 \<le> length m"
  shows "handleFloat None = None \<and> handleFloat (Some 0) = None
         \<and> handleInt oor None = None \<and> handleInt oor (Some 0) = None
         \<and> (\<exists>r. measure_of_row oor deviceID moduleID v i m = Inr r
               \<and> (m ! 0 \<in> {None, Some 0} \<longrightarrow> Temperature r = None)
               \<and> (m ! 1 \<in> {None, Some 0} \<longrightarrow> CO2 r = None)
               \<and> (m ! 2 \<in> {None, Some 0} \<longrightarrow> Humidity r = None)
               \<and> (m ! 3 \<in> {None, Some 0} \<longrightarrow> Pressure r = None)
               \<and> (m ! 4 \<in> {None, Some 0} \<longrightarrow> Noise r = None)
               \<and> (m ! 5 \<in> {None, Some 0} \<longrightarrow> WindStrength r = None)
               \<and> (m ! 6 \<in> {None, Some 0} \<longrightarrow> WindAngle r = None)
               \<and> (m ! 7 \<in> {None, Some 0} \<longrightarrow> GustStrength r = None)
               \<and> (m ! 8 \<in> {None, Some 0} \<longrightarrow> GustAngle r = None))"
proof -
  have f: "handleFloat c = None" if "c \<in> {None, Some 0}" for c
    using that by (auto simp add: handleFloat_def)
  have g: "handleInt oor c = None" if "c \<in> {None, Some 0}" for c
    using that by (auto simp add: handleInt_def)
  have "measure_of_row oor deviceID moduleID v i m = Inr (record_of_row oor deviceID moduleID v i m)"
    by (rule measure_of_row_wide [OF assms])
  then show ?thesis
    using f g by (simp add: record_of_row_def)
qed

theorem C2_null_and_zero_resolve_to_absent_witness:
  "9 \<le> length zero_row
   \<and> (\<exists>r. measure_of_row amd64_out_of_range ''70:ee:50:00:00:01'' ''02:00:00:00:00:01''
              example_block 1 zero_row = Inr r
          \<and> Temperature r = None \<and> Humidity r = None \<and> WindStrength r = None
          \<and> GustAngle r = None)"
proof -
  have w: "9 \<le> length zero_row"
    by (simp add: zero_row_def)
  have c: "zero_row ! 0 \<in> {None, Some 0}" "zero_row ! 2 \<in> {None, Some 0}"
    "zero_row ! 5 \<in> {None, Some 0}" "zero_row ! 8 \<in> {None, Some 0}"
    by (simp_all add: zero_row_def)
  from C2_null_and_zero_resolve_to_absent [OF w, of amd64_out_of_range
      "''70:ee:50:00:00:01''" "''02:00:00:00:00:01''" example_block 1] c w
  show ?thesis
    by blast
qed

subsection \<open>C3: non-zero cells\<close>

text \<open>
  C3, as amended. A present value other than zero is returned unchanged by
  \<open>handleFloat\<close>. \<open>handleInt\<close> returns the value truncated toward zero provided the
  truncated value fits the 64-bit \<open>int\<close>.
\<close>

theorem C3_nonzero_value_is_kept_or_truncated:
  assumes "x \<noteq> 0"
  shows "handleFloat (Some x) = Some x
         \<and> (- (2 ^ 63) \<le> truncate_toward_zero x \<and> truncate_toward_zero x < 2 ^ 63 \<longrightarrow>
              (\<exists>w. handleInt oor (Some x) = Some w \<and> sint w = truncate_toward_zero x))"
  using assms
  by (simp add: handleFloat_def handleInt_def float64_to_int_def sint_word_of_int_in_range)

theorem C3_nonzero_value_is_kept_or_truncated_witness:
  "(- 3.75 :: real) \<noteq> 0
   \<and> handleFloat (Some (- 3.75)) = Some (- 3.75)
   \<and> truncate_toward_zero (- 3.75) = - 3
   \<and> (\<exists>w. handleInt amd64_out_of_range (Some (- 3.75)) = Some w \<and> sint w = - 3)"
proof -
  have n: "(- 3.75 :: real) \<noteq> 0" by simp
  have t: "truncate_toward_zero (- 3.75) = - 3"
    by (simp add: truncate_toward_zero_def)
  from C3_nonzero_value_is_kept_or_truncated [OF n, of amd64_out_of_range] n t
  show ?thesis
    by simp
qed

text \<open>
  The claim as stated fails for a value whose truncation does not fit: \<open>2 ^ 100\<close> is a
  \<open>float64\<close>, and on amd64 its conversion is the smallest \<open>int64\<close>. No implementation
  can do better, since no \<open>int\<close> is that large.
\<close>

theorem C3_counterexample:
  "(2 ^ 100 :: real) \<noteq> 0
   \<and> handleInt amd64_out_of_range (Some (2 ^ 100)) = Some (- (2 ^ 63))
   \<and> sint (- (2 ^ 63) :: 64 word) \<noteq> truncate_toward_zero (2 ^ 100)"
  by (simp add: handleInt_def float64_to_int_def truncate_toward_zero_def amd64_out_of_range_def)

lemma handleInt_cannot_exceed_int64:
  assumes "handleInt oor (Some x) = Some w" and "2 ^ 63 \<le> truncate_toward_zero x"
  shows "sint w \<noteq> truncate_toward_zero x"
proof -
  have "sint w < 2 ^ 63"
    using sint_lt [of w] by simp
  with assms(2) show ?thesis by simp
qed

subsection \<open>C4: rows of the wrong width\<close>

text \<open>
  C4, as amended. When some row of the decoded response has fewer than nine cells, the
  decoder does not return at all: it stops with an index-out-of-range panic, so the caller
  gets no records, no empty result and no error value.
\<close>

theorem C4_short_row_panics:
  assumes "unmarshal data = Inr response"
    and "v \<in> set (Body response)" and "m \<in> set (Value v)" and "length m < 9"
  shows "(\<exists>n < 9. buildGetMeasureResponse oor unmarshal deviceID moduleID data =
                     Inl (IndexOutOfRange (int n) n))
         \<and> (\<forall>ms err. buildGetMeasureResponse oor unmarshal deviceID moduleID data \<noteq> Inr (ms, err))"
proof -
  from assms(4) have "\<not> 9 \<le> length m"
    by simp
  with assms(2,3) have "\<not> well_formed response"
    unfolding well_formed_def length_TargetMeasurements by blast
  from build_narrow [where unmarshal = unmarshal and data = data, OF assms(1) this,
      of oor deviceID moduleID]
  show ?thesis by auto
qed

theorem C4_short_row_panics_witness:
  "stub_unmarshal narrow_response [0] = Inr narrow_response
   \<and> length (take 7 wide_row) < 9
   \<and> buildGetMeasureResponse amd64_out_of_range (stub_unmarshal narrow_response)
        ''70:ee:50:00:00:01'' ''02:00:00:00:00:01'' [0] = Inl (IndexOutOfRange 7 7)"
proof -
  have p: "stub_unmarshal narrow_response [0] = Inr narrow_response"
    by (simp add: stub_unmarshal_def)
  have v: "\<lparr>BeginTime = 1000, StepTime = 60, Value = [take 7 wide_row]\<rparr> \<in> set (Body narrow_response)"
    by (simp add: narrow_response_def)
  have m: "take 7 wide_row \<in> set (Value \<lparr>BeginTime = 1000, StepTime = 60, Value = [take 7 wide_row]\<rparr>)"
    by simp
  have l: "length (take 7 wide_row) < 9"
    by (simp add: wide_row_def)
  have "\<exists>n<9. buildGetMeasureResponse amd64_out_of_range (stub_unmarshal narrow_response)
        ''70:ee:50:00:00:01'' ''02:00:00:00:00:01'' [0] = Inl (IndexOutOfRange (int n) n)"
    using C4_short_row_panics [where unmarshal = "stub_unmarshal narrow_response" and data = "[0]",
      OF p v m l] by blast
  moreover have "blocks_loop amd64_out_of_range ''70:ee:50:00:00:01'' ''02:00:00:00:00:01''
        (Body narrow_response) NilSlice = Inl (IndexOutOfRange 7 7)"
    by (simp add: narrow_response_def wide_row_def measure_of_row_narrow)
  then have "buildGetMeasureResponse amd64_out_of_range (stub_unmarshal narrow_response)
        ''70:ee:50:00:00:01'' ''02:00:00:00:00:01'' [0] = Inl (IndexOutOfRange 7 7)"
    by (simp add: buildGetMeasureResponse_def p)
  ultimately show ?thesis
    using p l by blast
qed

text \<open>
  The claim as stated fails for a row that is too long: a row of ten cells does not match
  the nine metrics, and it decodes to a record without any failure.
\<close>

theorem C4_counterexample:
  "length wide_row \<noteq> 9
   \<and> stub_unmarshal wide_response [0] = Inr wide_response
   \<and> buildGetMeasureResponse amd64_out_of_range (stub_unmarshal wide_response)
        ''70:ee:50:00:00:01'' ''02:00:00:00:00:01'' [0] =
       Inr (Slice [\<lparr>DeviceID = ''70:ee:50:00:00:01'', ModuleID = ''02:00:00:00:00:01'',
                     Timestamp = 1000, Temperature = Some 21.5, CO2 = Some 400,
                     Humidity = Some 55, Pressure = Some 1013.0, Noise = Some 30,
                     WindStrength = Some 5, WindAngle = Some 90, GustStrength = Some 9,
                     GustAngle = Some 95\<rparr>], None)"
proof -
  have p: "stub_unmarshal wide_response [0] = Inr wide_response"
    by (simp add: stub_unmarshal_def)
  have i: "handleInt amd64_out_of_range (Some (numeral k)) = Some (numeral k)"
    if "(numeral k :: int) < 2 ^ 63" for k
    using that by (simp add: handleInt_def float64_to_int_def truncate_toward_zero_def)
  have w: "9 \<le> length wide_row"
    by (simp add: wide_row_def)
  have "measure_of_row amd64_out_of_range ''70:ee:50:00:00:01'' ''02:00:00:00:00:01''
          \<lparr>BeginTime = 1000, StepTime = 60, Value = [wide_row]\<rparr> 0 wide_row =
        Inr \<lparr>DeviceID = ''70:ee:50:00:00:01'', ModuleID = ''02:00:00:00:00:01'',
                     Timestamp = 1000, Temperature = Some 21.5, CO2 = Some 400,
                     Humidity = Some 55, Pressure = Some 1013.0, Noise = Some 30,
                     WindStrength = Some 5, WindAngle = Some 90, GustStrength = Some 9,
                     GustAngle = Some 95\<rparr>"
    unfolding measure_of_row_wide [OF w]
    by (simp add: record_of_row_def wide_row_def handleFloat_def i)
  then have "blocks_loop amd64_out_of_range ''70:ee:50:00:00:01'' ''02:00:00:00:00:01''
        (Body wide_response) NilSlice =
        Inr (Slice [\<lparr>DeviceID = ''70:ee:50:00:00:01'', ModuleID = ''02:00:00:00:00:01'',
                     Timestamp = 1000, Temperature = Some 21.5, CO2 = Some 400,
                     Humidity = Some 55, Pressure = Some 1013.0, Noise = Some 30,
                     WindStrength = Some 5, WindAngle = Some 90, GustStrength = Some 9,
                     GustAngle = Some 95\<rparr>])"
    by (simp add: wide_response_def append_slice_def)
  then have "buildGetMeasureResponse amd64_out_of_range (stub_unmarshal wide_response)
        ''70:ee:50:00:00:01'' ''02:00:00:00:00:01'' [0] =
       Inr (Slice [\<lparr>DeviceID = ''70:ee:50:00:00:01'', ModuleID = ''02:00:00:00:00:01'',
                     Timestamp = 1000, Temperature = Some 21.5, CO2 = Some 400,
                     Humidity = Some 55, Pressure = Some 1013.0, Noise = Some 30,
                     WindStrength = Some 5, WindAngle = Some 90, GustStrength = Some 9,
                     GustAngle = Some 95\<rparr>], None)"
    by (simp add: buildGetMeasureResponse_def p)
  moreover have "length wide_row \<noteq> 9"
    by (simp add: wide_row_def)
  ultimately show ?thesis
    using p by blast
qed

subsection \<open>C5: no data\<close>

text \<open>
  C5. A response without blocks, or whose blocks all have no rows, decodes to the nil
  slice with no error. A failure of the JSON decoder returns the nil slice together with the
  error, so the two outcomes differ.
\<close>

theorem C5_no_rows_is_no_data:
  assumes "unmarshal data = Inr response"
    and "\<forall>v \<in> set (Body response). Value v = []"
    and "unmarshal bad = Inl err"
  shows "buildGetMeasureResponse oor unmarshal deviceID moduleID data = Inr (NilSlice, None)
         \<and> buildGetMeasureResponse oor unmarshal deviceID moduleID bad = Inr (NilSlice, Some err)
         \<and> buildGetMeasureResponse oor unmarshal deviceID moduleID data \<noteq>
             buildGetMeasureResponse oor unmarshal deviceID moduleID bad"
proof -
  from assms(2) have wf: "well_formed response"
    by (simp add: well_formed_def)
  from assms(2) have "expansion_spec oor deviceID moduleID (Body response) = []"
    by (simp add: expansion_spec_def block_records_def)
  with build_wide [where unmarshal = unmarshal and data = data, OF assms(1) wf,
      of oor deviceID moduleID]
  have "buildGetMeasureResponse oor unmarshal deviceID moduleID data = Inr (NilSlice, None)"
    by simp
  moreover have "buildGetMeasureResponse oor unmarshal deviceID moduleID bad = Inr (NilSlice, Some err)"
    by (rule build_failed_parse [where unmarshal = unmarshal and data = bad, OF assms(3)])
  ultimately show ?thesis by simp
qed

theorem C5_no_rows_is_no_data_witness:
  "stub_unmarshal no_rows_response [0] = Inr no_rows_response
   \<and> stub_unmarshal no_rows_response [] = Inl ''unexpected end of JSON input''
   \<and> buildGetMeasureResponse amd64_out_of_range (stub_unmarshal no_rows_response)
        ''70:ee:50:00:00:01'' ''02:00:00:00:00:01'' [0] = Inr (NilSlice, None)
   \<and> buildGetMeasureResponse amd64_out_of_range (stub_unmarshal no_rows_response)
        ''70:ee:50:00:00:01'' ''02:00:00:00:00:01'' [] =
       Inr (NilSlice, Some ''unexpected end of JSON input'')"
proof -
  have p: "stub_unmarshal no_rows_response [0] = Inr no_rows_response"
    by (simp add: stub_unmarshal_def)
  have q: "stub_unmarshal no_rows_response [] = Inl ''unexpected end of JSON input''"
    by (simp add: stub_unmarshal_def)
  have e: "\<forall>v \<in> set (Body no_rows_response). Value v = []"
    by (simp add: no_rows_response_def)
  from C5_no_rows_is_no_data [where unmarshal = "stub_unmarshal no_rows_response"
      and data = "[0]" and bad = "[]", OF p e q] p q
  show ?thesis by blast
qed

subsection \<open>C6: the newest read\<close>

text \<open>
  C6. When the request succeeds and decoding returns the slice \<open>ms\<close> without error,
  \<open>GetMeasureByNewest\<close> returns the record at the last position of \<open>ms\<close>, and
  (nil, nil) when \<open>ms\<close> holds no record; in neither case an error. The last position
  need not hold the latest timestamp, as the example with two blocks out of
  chronological order shows.
\<close>

theorem C6_newest_is_last_position:
  assumes "http_get (newest_url deviceID moduleID) = Inr resp"
    and "read_all resp = Inr data"
    and "buildGetMeasureResponse oor unmarshal deviceID moduleID data = Inr (ms, None)"
  shows "GetMeasureByNewest oor unmarshal http_get read_all deviceID moduleID =
           (if elems ms = [] then Inr (None, None) else Inr (Some (last (elems ms)), None))"
proof (cases "elems ms = []")
  case True
  with build_result_shape [OF assms(3)] have "ms = NilSlice"
    by simp
  with assms show ?thesis
    by (simp add: GetMeasureByNewest_def)
next
  case False
  then have "ms \<noteq> NilSlice"
    by auto
  with assms False show ?thesis
    by (simp add: GetMeasureByNewest_def index_last_slice)
qed

theorem C6_newest_is_last_position_witness:
  "stub_http_get (newest_url ''70:ee:50:00:00:01'' ''02:00:00:00:00:01'') = Inr [0]
   \<and> stub_read_all [0] = Inr [0]
   \<and> (\<exists>ms r. buildGetMeasureResponse amd64_out_of_range (stub_unmarshal out_of_order_response)
                 ''70:ee:50:00:00:01'' ''02:00:00:00:00:01'' [0] = Inr (ms, None)
          \<and> map Timestamp (elems ms) = [2000, 2060, 1000]
          \<and> GetMeasureByNewest amd64_out_of_range (stub_unmarshal out_of_order_response)
               stub_http_get stub_read_all ''70:ee:50:00:00:01'' ''02:00:00:00:00:01'' =
               Inr (Some r, None)
          \<and> r = last (elems ms) \<and> Timestamp r = 1000)"
proof -
  let ?recs = "expansion_spec amd64_out_of_range ''70:ee:50:00:00:01'' ''02:00:00:00:00:01''
                 (Body out_of_order_response)"
  have g: "stub_http_get (newest_url ''70:ee:50:00:00:01'' ''02:00:00:00:00:01'') = Inr [0]"
    by (simp add: stub_http_get_def)
  have a: "stub_read_all [0] = Inr [0]"
    by (simp add: stub_read_all_def)
  have ne: "?recs \<noteq> []"
    using out_of_order_timestamps by auto
  have "Timestamp (last ?recs) = last (map Timestamp ?recs)"
    using ne by (simp add: last_map)
  then have l: "Timestamp (last ?recs) = 1000"
    by (simp add: out_of_order_timestamps)
  from C6_newest_is_last_position [where http_get = stub_http_get and read_all = stub_read_all,
      OF g a out_of_order_build]
  have "GetMeasureByNewest amd64_out_of_range (stub_unmarshal out_of_order_response)
               stub_http_get stub_read_all ''70:ee:50:00:00:01'' ''02:00:00:00:00:01'' =
               Inr (Some (last ?recs), None)"
    using ne by simp
  with g a l out_of_order_build out_of_order_timestamps show ?thesis
    by (metis elems.simps(2))
qed

subsection \<open>C7: output order is input order\<close>

text \<open>
  C7. The records of a well-formed response are the records of its blocks, block after
  block in the order given and, within a block, row after row: nothing is sorted, dropped
  or merged, and there are as many records as rows.
\<close>

theorem C7_output_order_is_input_order:
  assumes "unmarshal data = Inr response" and "well_formed response"
  shows "\<exists>ms. buildGetMeasureResponse oor unmarshal deviceID moduleID data = Inr (ms, None)
           \<and> elems ms = concat (map (block_records oor deviceID moduleID) (Body response))
           \<and> len ms = sum_list (map (\<lambda>v. length (Value v)) (Body response))"
proof -
  let ?recs = "expansion_spec oor deviceID moduleID (Body response)"
  let ?ms = "if ?recs = [] then NilSlice else Slice ?recs"
  have "buildGetMeasureResponse oor unmarshal deviceID moduleID data = Inr (?ms, None)"
    using build_wide [where unmarshal = unmarshal and data = data, OF assms] by simp
  moreover have e: "elems ?ms = ?recs"
    by simp
  moreover have "len ?ms = sum_list (map (\<lambda>v. length (Value v)) (Body response))"
    unfolding len_def e by (rule length_expansion_spec)
  ultimately show ?thesis
    unfolding expansion_spec_def by blast
qed

theorem C7_output_order_is_input_order_witness:
  "stub_unmarshal out_of_order_response [0] = Inr out_of_order_response
   \<and> well_formed out_of_order_response
   \<and> (\<exists>ms. buildGetMeasureResponse amd64_out_of_range (stub_unmarshal out_of_order_response)
               ''70:ee:50:00:00:01'' ''02:00:00:00:00:01'' [0] = Inr (ms, None)
          \<and> len ms = 3
          \<and> map Timestamp (elems ms) = [2000, 2060, 1000])"
proof -
  have p: "stub_unmarshal out_of_order_response [0] = Inr out_of_order_response"
    by (simp add: stub_unmarshal_def)
  have wf: "well_formed out_of_order_response"
    by (simp add: well_formed_def out_of_order_response_def wide_row_def zero_row_def
        length_TargetMeasurements)
  have n: "sum_list (map (\<lambda>v. length (Value v)) (Body out_of_order_response)) = 3"
    by (simp add: out_of_order_response_def)
  from C7_output_order_is_input_order [where unmarshal = "stub_unmarshal out_of_order_response"
      and data = "[0]" and oor = amd64_out_of_range and deviceID = "''70:ee:50:00:00:01''"
      and moduleID = "''02:00:00:00:00:01''", OF p wf]
  obtain ms where "buildGetMeasureResponse amd64_out_of_range (stub_unmarshal out_of_order_response)
               ''70:ee:50:00:00:01'' ''02:00:00:00:00:01'' [0] = Inr (ms, None)"
    and "elems ms = expansion_spec amd64_out_of_range ''70:ee:50:00:00:01''
                      ''02:00:00:00:00:01'' (Body out_of_order_response)"
    and "len ms = 3"
    unfolding n expansion_spec_def by blast
  with p wf out_of_order_timestamps show ?thesis
    by auto
qed

subsection \<open>C8: the identifiers\<close>

text \<open>
  C8. Every record that the decoder returns carries the device and module identifiers
  the caller passed, unchanged.
\<close>

theorem C8_records_carry_caller_ids:
  assumes "buildGetMeasureResponse oor unmarshal deviceID moduleID data = Inr (ms, err)"
    and "x \<in> set (elems ms)"
  shows "DeviceID x = deviceID \<and> ModuleID x = moduleID"
proof (cases "unmarshal data")
  case (Inl e)
  from build_failed_parse [where unmarshal = unmarshal and data = data, OF Inl] assms(1)
  have "ms = NilSlice"
    by simp
  with assms(2) show ?thesis
    by simp
next
  case (Inr response)
  show ?thesis
  proof (cases "well_formed response")
    case True
    from build_wide [where unmarshal = unmarshal and data = data, OF Inr True] assms(1)
    have "elems ms = expansion_spec oor deviceID moduleID (Body response)"
      by (auto split: if_splits)
    with assms(2) show ?thesis
      by (simp add: expansion_spec_ids)
  next
    case False
    from build_narrow [where unmarshal = unmarshal and data = data, OF Inr False,
        of oor deviceID moduleID] assms(1)
    show ?thesis
      by auto
  qed
qed

theorem C8_records_carry_caller_ids_witness:
  "\<exists>ms x. buildGetMeasureResponse amd64_out_of_range (stub_unmarshal out_of_order_response)
               ''70:ee:50:00:00:01'' ''02:00:00:00:00:01'' [0] = Inr (ms, None)
          \<and> x \<in> set (elems ms)
          \<and> DeviceID x = ''70:ee:50:00:00:01'' \<and> ModuleID x = ''02:00:00:00:00:01''"
proof -
  let ?recs = "expansion_spec amd64_out_of_range ''70:ee:50:00:00:01'' ''02:00:00:00:00:01''
                 (Body out_of_order_response)"
  have "?recs \<noteq> []"
    using out_of_order_timestamps by auto
  then have m: "last ?recs \<in> set (elems (Slice ?recs))"
    by simp
  from C8_records_carry_caller_ids [OF out_of_order_build m] out_of_order_build m
  show ?thesis
    by blast
qed

subsection \<open>C9: nil or non-empty\<close>

text \<open>
  C9. A slice returned without error is nil or holds at least one record; hence, when it
  is not nil, the index \<open>len - 1\<close> used by \<open>GetMeasureByNewest\<close> is in range.
\<close>

theorem C9_result_is_nil_or_nonempty:
  assumes "buildGetMeasureResponse oor unmarshal deviceID moduleID data = Inr (ms, None)"
  shows "(ms = NilSlice \<or> 1 \<le> len ms)
         \<and> (ms \<noteq> NilSlice \<longrightarrow> (\<exists>x. index_slice ms (int (len ms) - 1) = Inr x))"
proof -
  from build_result_shape [OF assms] have s: "ms = NilSlice \<or> elems ms \<noteq> []" .
  then have "ms = NilSlice \<or> 1 \<le> len ms"
    by (auto simp add: len_def Suc_le_eq)
  moreover have "\<exists>x. index_slice ms (int (len ms) - 1) = Inr x" if "ms \<noteq> NilSlice"
    using s that index_last_slice [of ms] by auto
  ultimately show ?thesis
    by blast
qed

theorem C9_result_is_nil_or_nonempty_witness:
  "\<exists>ms. buildGetMeasureResponse amd64_out_of_range (stub_unmarshal out_of_order_response)
               ''70:ee:50:00:00:01'' ''02:00:00:00:00:01'' [0] = Inr (ms, None)
          \<and> ms \<noteq> NilSlice \<and> 1 \<le> len ms
          \<and> (\<exists>x. index_slice ms (int (len ms) - 1) = Inr x)"
  using C9_result_is_nil_or_nonempty [OF out_of_order_build] out_of_order_build
  by auto

subsection \<open>C10: rows with more than nine cells\<close>

text \<open>
  C10. A response whose rows all have at least nine cells decodes without error, however
  long the rows are, and cells past the ninth are ignored: the result is the same as for
  the response with every row cut to its first nine cells.
\<close>

theorem C10_cells_past_the_ninth_are_ignored:
  assumes "unmarshal data = Inr response"
    and "well_formed response"
    and "unmarshal data' = Inr (cut_rows response)"
  shows "\<exists>ms. buildGetMeasureResponse oor unmarshal deviceID moduleID data = Inr (ms, None)
           \<and> buildGetMeasureResponse oor unmarshal deviceID moduleID data' = Inr (ms, None)"
  using build_wide [where unmarshal = unmarshal and data = data, OF assms(1,2),
      of oor deviceID moduleID]
    build_wide [where unmarshal = unmarshal and data = data',
      OF assms(3) well_formed_cut_rows [OF assms(2)], of oor deviceID moduleID]
  by (simp add: expansion_spec_cut_rows [OF assms(2)])

theorem C10_cells_past_the_ninth_are_ignored_witness:
  "length wide_row = 10
   \<and> well_formed wide_response
   \<and> (\<exists>ms. buildGetMeasureResponse amd64_out_of_range
               (\<lambda>data. if data = [] then Inr (cut_rows wide_response) else Inr wide_response)
               ''70:ee:50:00:00:01'' ''02:00:00:00:00:01'' [0] = Inr (ms, None)
          \<and> buildGetMeasureResponse amd64_out_of_range
               (\<lambda>data. if data = [] then Inr (cut_rows wide_response) else Inr wide_response)
               ''70:ee:50:00:00:01'' ''02:00:00:00:00:01'' [] = Inr (ms, None)
          \<and> len ms = 1)"
proof -
  let ?u = "\<lambda>data :: byte list. if data = [] then Inr (cut_rows wide_response) else Inr wide_response"
  have l: "length wide_row = 10"
    by (simp add: wide_row_def)
  have wf: "well_formed wide_response"
    by (simp add: well_formed_def wide_response_def wide_row_def length_TargetMeasurements)
  have p: "?u [0] = Inr wide_response" and q: "?u [] = Inr (cut_rows wide_response)"
    by simp_all
  have n: "length (expansion_spec amd64_out_of_range ''70:ee:50:00:00:01''
             ''02:00:00:00:00:01'' (Body wide_response)) = 1"
    by (simp add: length_expansion_spec wide_response_def)
  then have ne: "expansion_spec amd64_out_of_range ''70:ee:50:00:00:01''
             ''02:00:00:00:00:01'' (Body wide_response) \<noteq> []"
    by auto
  from C10_cells_past_the_ninth_are_ignored [where unmarshal = ?u and data = "[0]"
      and data' = "[]" and oor = amd64_out_of_range and deviceID = "''70:ee:50:00:00:01''"
      and moduleID = "''02:00:00:00:00:01''", OF p wf q]
  obtain ms where a: "buildGetMeasureResponse amd64_out_of_range ?u
               ''70:ee:50:00:00:01'' ''02:00:00:00:00:01'' [0] = Inr (ms, None)"
    and b: "buildGetMeasureResponse amd64_out_of_range ?u
               ''70:ee:50:00:00:01'' ''02:00:00:00:00:01'' [] = Inr (ms, None)"
    by blast
  from a build_wide [where unmarshal = ?u and data = "[0]", OF p wf,
      of amd64_out_of_range "''70:ee:50:00:00:01''" "''02:00:00:00:00:01''"] ne n
  have "len ms = 1"
    by auto
  with l wf a b show ?thesis
    by blast
qed

end
